theory Spec2Isabelle
  imports Complex_Main "HOL-Library.List_Lexorder" "HOL-Library.Char_ord"
begin

section \<open>Strings\<close>

text \<open>
  A Python \<open>str\<close> is modelled by \<^typ>\<open>string\<close>, read as its UTF-8 bytes; \<open>bytes\<close> are
  \<^typ>\<open>string\<close> too, so \<open>encode('utf-8')\<close> is the identity. The order of
  \<^typ>\<open>string\<close> (lexicographic, characters by their code) is the order Python's
  \<open>sort\<close> uses on \<open>str\<close>.
\<close>

definition sq :: string where
  "sq = [CHR 0x27]"

definition dq :: string where
  "dq = [CHR 0x22]"

definition nl :: string where
  "nl = [CHR 0x0A]"

definition startswith :: "string \<Rightarrow> string \<Rightarrow> bool" where
  "startswith s p = (take (length p) s = p)"

definition endswith :: "string \<Rightarrow> string \<Rightarrow> bool" where
  "endswith s p = (length p \<le> length s \<and> drop (length s - length p) s = p)"

definition lstrip :: "string \<Rightarrow> string \<Rightarrow> string" where
  "lstrip s chars = dropWhile (\<lambda>c. c \<in> set chars) s"

definition rstrip :: "string \<Rightarrow> string \<Rightarrow> string" where
  "rstrip s chars = rev (dropWhile (\<lambda>c. c \<in> set chars) (rev s))"

text \<open>\<open>sep.join(items)\<close>\<close>

fun join :: "string \<Rightarrow> string list \<Rightarrow> string" where
  "join sep [] = []"
| "join sep [x] = x"
| "join sep (x # y # ys) = x @ sep @ join sep (y # ys)"

text \<open>
  \<open>str(n)\<close> for a Python \<open>int\<close>. \<open>str_digits\<close> is the decimal numeral of a
  non-negative integer; \<open>str_digits_at\<close> is its body with the test \<open>n < 10\<close> taken
  as an argument, which lets the recursion be evaluated step by step.
\<close>

definition digit :: "int \<Rightarrow> char" where
  "digit d = ''0123456789'' ! nat d"

function str_digits :: "int \<Rightarrow> string" where
  "str_digits n = (if n < 10 then [digit n] else str_digits (n div 10) @ [digit (n mod 10)])"
  by pat_completeness auto
termination
  by (relation "measure nat") auto

declare str_digits.simps [simp del]

definition str_digits_at :: "bool \<Rightarrow> int \<Rightarrow> string" where
  "str_digits_at small n =
     (if small then [digit n] else str_digits (n div 10) @ [digit (n mod 10)])"

definition str_int :: "int \<Rightarrow> string" where
  "str_int n = (if n < 0 then ''-'' @ str_digits (- n) else str_digits n)"

text \<open>
  \<open>urllib.parse.unquote\<close>: every \<open>%XY\<close> with two hexadecimal digits (either case)
  becomes the byte \<open>0xXY\<close>; a \<open>%\<close> not followed by two hexadecimal digits stays.
  Python decodes the resulting bytes as UTF-8 with \<open>errors='replace'\<close>; the model
  keeps the bytes, which is the same string whenever they are valid UTF-8 (ASCII in
  particular).
\<close>

definition hexval :: "char \<Rightarrow> nat option" where
  "hexval c =
     (let n = (of_char c :: nat) in
      if 48 \<le> n \<and> n \<le> 57 then Some (n - 48)
      else if 97 \<le> n \<and> n \<le> 102 then Some (n - 87)
      else if 65 \<le> n \<and> n \<le> 70 then Some (n - 55)
      else None)"

fun unquote :: "string \<Rightarrow> string" where
  "unquote [] = []"
| "unquote (c # cs) =
     (if c = CHR ''%'' then
        (case cs of
           a # b # rest \<Rightarrow>
             (case (hexval a, hexval b) of
                (Some hi, Some lo) \<Rightarrow> char_of (16 * hi + lo) # unquote rest
              | _ \<Rightarrow> c # unquote cs)
         | _ \<Rightarrow> c # unquote cs)
      else c # unquote cs)"

section \<open>Paths\<close>

text \<open>\<open>os.path.join(a, b)\<close> and \<open>os.path.dirname(p)\<close> of \<open>posixpath\<close>.\<close>

definition os_path_join :: "string \<Rightarrow> string \<Rightarrow> string" where
  "os_path_join a b =
     (if startswith b ''/'' then b
      else if a = [] \<or> endswith a ''/'' then a @ b
      else a @ ''/'' @ b)"

definition os_path_dirname :: "string \<Rightarrow> string" where
  "os_path_dirname p =
     (let hd_part = rev (dropWhile (\<lambda>c. c \<noteq> CHR ''/'') (rev p)) in
      if hd_part \<noteq> [] \<and> hd_part \<noteq> replicate (length hd_part) (CHR ''/'')
      then rstrip hd_part ''/'' else hd_part)"

section \<open>The host: working directory, filesystem, processes\<close>

text \<open>
  What the handler reads from its environment. The filesystem is what the calls of the
  source answer for a path string: \<open>os.stat\<close> (behind \<open>os.path.exists\<close>,
  \<open>isfile\<close>, \<open>isdir\<close> and \<open>getsize\<close>), \<open>open(p, 'rb').read()\<close> and
  \<open>os.listdir\<close>; \<open>Inl msg\<close> is the \<open>OSError\<close> (\<open>IOError\<close>) raised, with
  \<open>str\<close> of it. The three answers are independent of each other, as they are for
  calls made at different times.
\<close>

datatype kind = Regular | Directory | Special

datatype child =
    Runs rat int string string
  | CannotRun string

text \<open>
  \<open>Runs t rc out err\<close>: the child runs for \<open>t\<close> seconds unless killed before, with
  return code \<open>rc\<close>; \<open>out\<close> and \<open>err\<close> are the text captured from its stdout and
  stderr up to its exit or its kill. \<open>CannotRun msg\<close>: \<open>subprocess.run\<close> raises
  another exception (the spawn fails, the output does not decode).
\<close>

record host =
  cwd :: string
  os_stat :: "string \<Rightarrow> string + (kind \<times> int)"
  os_read :: "string \<Rightarrow> string + string"
  os_listdir :: "string \<Rightarrow> string + string list"
  environ :: "string \<rightharpoonup> string"
  executable :: string
  server_name :: string
  server_port :: int
  spawn :: "string list \<Rightarrow> (string \<rightharpoonup> string) \<Rightarrow> child"

definition os_path_exists :: "host \<Rightarrow> string \<Rightarrow> bool" where
  "os_path_exists h p = (case os_stat h p of Inl _ \<Rightarrow> False | Inr _ \<Rightarrow> True)"

definition os_path_isfile :: "host \<Rightarrow> string \<Rightarrow> bool" where
  "os_path_isfile h p = (case os_stat h p of Inl _ \<Rightarrow> False | Inr (k, _) \<Rightarrow> k = Regular)"

definition os_path_isdir :: "host \<Rightarrow> string \<Rightarrow> bool" where
  "os_path_isdir h p = (case os_stat h p of Inl _ \<Rightarrow> False | Inr (k, _) \<Rightarrow> k = Directory)"

definition os_path_getsize :: "host \<Rightarrow> string \<Rightarrow> string + int" where
  "os_path_getsize h p = (case os_stat h p of Inl msg \<Rightarrow> Inl msg | Inr (_, n) \<Rightarrow> Inr n)"

datatype run_result =
    CompletedProcess int string string
  | TimeoutExpired string string
  | OtherException string

text \<open>
  \<open>subprocess.run(..., capture_output=True, text=True, timeout=t)\<close>: a child still
  running after \<open>t\<close> seconds is killed and \<open>TimeoutExpired\<close> is raised, carrying the
  output captured so far.
\<close>

definition subprocess_run :: "child \<Rightarrow> rat \<Rightarrow> run_result" where
  "subprocess_run c timeout =
     (case c of
        CannotRun msg \<Rightarrow> OtherException msg
      | Runs t rc out err \<Rightarrow>
          if timeout < t then TimeoutExpired out err else CompletedProcess rc out err)"

section \<open>Responses\<close>

record response =
  status :: nat
  content_type :: string
  content_length :: nat
  body :: string

definition error_page :: "string \<Rightarrow> string \<Rightarrow> string" where
  "error_page path msg =
     nl @ ''    <html>'' @ nl @
     ''    <head><title>Error</title></head>'' @ nl @
     ''    <body>'' @ nl @
     ''        <h1>Error accessing '' @ path @ ''</h1>'' @ nl @
     ''        <p>'' @ msg @ ''</p>'' @ nl @
     ''        <hr>'' @ nl @
     ''        <p><em>Simple Python Web Server</em></p>'' @ nl @
     ''    </body>'' @ nl @
     ''    </html>'' @ nl @
     ''    ''"

definition listing_page :: "string \<Rightarrow> string \<Rightarrow> string" where
  "listing_page path entries =
     nl @ ''    <html>'' @ nl @
     ''    <head><title>Directory: '' @ path @ ''</title></head>'' @ nl @
     ''    <body>'' @ nl @
     ''        <h1>Directory: '' @ path @ ''</h1>'' @ nl @
     ''        <ul>'' @ nl @
     ''        '' @ entries @ nl @
     ''        </ul>'' @ nl @
     ''        <hr>'' @ nl @
     ''        <p><em>Simple Python Web Server</em></p>'' @ nl @
     ''    </body>'' @ nl @
     ''    </html>'' @ nl @
     ''    ''"

definition send_content :: "string \<Rightarrow> string \<Rightarrow> nat \<Rightarrow> response" where
  "send_content path content st =
     \<lparr>status = st,
      content_type =
        (if endswith path ''.html'' \<or> endswith path ''.htm'' then ''text/html''
         else if endswith path ''.css'' then ''text/css''
         else if endswith path ''.js'' then ''application/javascript''
         else if endswith path ''.json'' then ''application/json''
         else if endswith path ''.jpg'' \<or> endswith path ''.jpeg'' then ''image/jpeg''
         else if endswith path ''.png'' then ''image/png''
         else if endswith path ''.gif'' then ''image/gif''
         else ''text/html''),
      content_length = length content,
      body = content\<rparr>"

definition handle_error :: "string \<Rightarrow> string \<Rightarrow> response" where
  "handle_error path msg = send_content path (error_page path msg) 404"

section \<open>File sizes\<close>

text \<open>
  \<open>format_size\<close> divides a Python float by 1024, a power of two, which is exact in
  binary floating point: for a size below \<open>2 ^ 53\<close> the running value is the
  rational number \<open>size / 1024 ^ k\<close>, modelled by \<^typ>\<open>rat\<close>. The format \<open>.1f\<close>
  rounds that value to one decimal, a tie to the even digit.
\<close>

definition round_half_even :: "rat \<Rightarrow> int" where
  "round_half_even x =
     (let f = \<lfloor>x\<rfloor>; r = x - of_int f in
      if r < 1 / 2 then f else if 1 / 2 < r then f + 1
      else if even f then f else f + 1)"

definition fmt_1f :: "rat \<Rightarrow> string" where
  "fmt_1f x =
     (let t = round_half_even (\<bar>x\<bar> * 10) in
      (if x < 0 then ''-'' else []) @ str_digits (t div 10) @ ''.'' @ str_digits (t mod 10))"

fun format_size_loop :: "string list \<Rightarrow> rat \<Rightarrow> string" where
  "format_size_loop [] sz = fmt_1f sz @ '' TB''"
| "format_size_loop (unit # units) sz =
     (if sz < 1024 then fmt_1f sz @ '' '' @ unit
      else format_size_loop units (sz / 1024))"

definition format_size :: "int \<Rightarrow> string" where
  "format_size sz = format_size_loop [''B'', ''KB'', ''MB'', ''GB''] (of_int sz)"

section \<open>Directory listings\<close>

definition parent_item :: "string \<Rightarrow> string" where
  "parent_item parent_path = ''<li><a href='' @ dq @ parent_path @ dq @ ''>../</a></li>''"

definition dir_item :: "string \<Rightarrow> string \<Rightarrow> string" where
  "dir_item url_path entry =
     ''<li><a href='' @ dq @ url_path @ ''/'' @ dq @ ''>'' @ entry @ ''/</a></li>''"

definition file_item :: "string \<Rightarrow> string \<Rightarrow> string \<Rightarrow> string" where
  "file_item url_path entry size_str =
     ''<li><a href='' @ dq @ url_path @ dq @ ''>'' @ entry @ ''</a> ('' @ size_str @ '')</li>''"

text \<open>
  The loop over the sorted entries; \<open>listing_items\<close> is the list built so far.
  \<open>Inl msg\<close>: \<open>os.path.getsize\<close> raised \<open>OSError\<close>.
\<close>

fun list_entries :: "host \<Rightarrow> string \<Rightarrow> string \<Rightarrow> string list \<Rightarrow> string list \<Rightarrow> string + string list" where
  "list_entries h path full_path [] listing_items = Inr listing_items"
| "list_entries h path full_path (entry # entries) listing_items =
     (if startswith entry ''.'' then list_entries h path full_path entries listing_items
      else
        (let entry_path = os_path_join full_path entry;
             url_path = rstrip path ''/'' @ ''/'' @ entry in
         if os_path_isdir h entry_path
         then list_entries h path full_path entries (listing_items @ [dir_item url_path entry])
         else
           (case os_path_getsize h entry_path of
              Inl msg \<Rightarrow> Inl msg
            | Inr sz \<Rightarrow>
                list_entries h path full_path entries
                  (listing_items @ [file_item url_path entry (format_size sz)]))))"

definition parent_items :: "string \<Rightarrow> string list" where
  "parent_items path =
     (if path \<noteq> ''/'' then
        (let parent_path = os_path_dirname (rstrip path ''/'') in
         [parent_item (if parent_path = [] then ''/'' else parent_path)])
      else [])"

definition list_dir :: "host \<Rightarrow> string \<Rightarrow> string \<Rightarrow> response" where
  "list_dir h path full_path =
     (case os_listdir h full_path of
        Inl msg \<Rightarrow> handle_error path (sq @ path @ sq @ '' cannot be listed: '' @ msg)
      | Inr entries \<Rightarrow>
          (case list_entries h path full_path (sort entries) (parent_items path) of
             Inl msg \<Rightarrow> handle_error path (sq @ path @ sq @ '' cannot be listed: '' @ msg)
           | Inr listing_items \<Rightarrow>
               send_content path
                 (listing_page path (join (nl @ ''        '') listing_items)) 200))"

section \<open>Files and scripts\<close>

definition handle_file :: "host \<Rightarrow> string \<Rightarrow> string \<Rightarrow> response" where
  "handle_file h path full_path =
     (case os_read h full_path of
        Inr content \<Rightarrow> send_content path content 200
      | Inl msg \<Rightarrow> handle_error path (sq @ full_path @ sq @ '' cannot be read: '' @ msg))"

definition cgi_timeout :: rat where
  "cgi_timeout = 30"

definition cgi_env :: "host \<Rightarrow> string \<Rightarrow> (string \<rightharpoonup> string)" where
  "cgi_env h path =
     (environ h)(''REQUEST_METHOD'' \<mapsto> ''GET'', ''PATH_INFO'' \<mapsto> path,
       ''SERVER_NAME'' \<mapsto> server_name h, ''SERVER_PORT'' \<mapsto> str_int (server_port h))"

definition run_cgi :: "host \<Rightarrow> string \<Rightarrow> string \<Rightarrow> response" where
  "run_cgi h path full_path =
     (case subprocess_run (spawn h [executable h, full_path] (cgi_env h path)) cgi_timeout of
        CompletedProcess returncode out err \<Rightarrow>
          if returncode = 0 then send_content path out 200
          else handle_error path (''CGI script error: '' @ err)
      | TimeoutExpired _ _ \<Rightarrow> handle_error path ''CGI script timed out''
      | OtherException msg \<Rightarrow> handle_error path (''Cannot execute CGI script: '' @ msg))"

section \<open>The case chain\<close>

datatype handler_case =
    CaseNoFile
  | CaseCgiFile
  | CaseExistingFile
  | CaseDirectoryIndexFile
  | CaseDirectoryNoIndex
  | CaseAlwaysFail

datatype exn = ServerException string

definition index_path :: "string \<Rightarrow> string" where
  "index_path full_path = os_path_join full_path ''index.html''"

fun test :: "handler_case \<Rightarrow> host \<Rightarrow> string \<Rightarrow> bool" where
  "test CaseNoFile h full_path = (\<not> os_path_exists h full_path)"
| "test CaseCgiFile h full_path = (os_path_isfile h full_path \<and> endswith full_path ''.py'')"
| "test CaseExistingFile h full_path = os_path_isfile h full_path"
| "test CaseDirectoryIndexFile h full_path =
     (os_path_isdir h full_path \<and> os_path_isfile h (index_path full_path))"
| "test CaseDirectoryNoIndex h full_path =
     (os_path_isdir h full_path \<and> \<not> os_path_isfile h (index_path full_path))"
| "test CaseAlwaysFail h full_path = True"

text \<open>\<open>Inl\<close>: the action raises; \<open>Inr\<close>: it returns, having sent the response.\<close>

fun act :: "handler_case \<Rightarrow> host \<Rightarrow> string \<Rightarrow> string \<Rightarrow> exn + response" where
  "act CaseNoFile h path full_path = Inl (ServerException (sq @ path @ sq @ '' not found''))"
| "act CaseCgiFile h path full_path = Inr (run_cgi h path full_path)"
| "act CaseExistingFile h path full_path = Inr (handle_file h path full_path)"
| "act CaseDirectoryIndexFile h path full_path = Inr (handle_file h path (index_path full_path))"
| "act CaseDirectoryNoIndex h path full_path = Inr (list_dir h path full_path)"
| "act CaseAlwaysFail h path full_path =
     Inl (ServerException (''Unknown object '' @ sq @ path @ sq))"

definition cases :: "handler_case list" where
  "cases =
     [CaseNoFile, CaseCgiFile, CaseExistingFile, CaseDirectoryIndexFile,
      CaseDirectoryNoIndex, CaseAlwaysFail]"

text \<open>
  The loop \<open>for case in self.cases: if case.test(self): case.act(self); break\<close>.
  \<open>Inr None\<close>: the loop ends with no case taken and nothing sent.
\<close>

fun run_cases :: "handler_case list \<Rightarrow> host \<Rightarrow> string \<Rightarrow> string \<Rightarrow> exn + response option" where
  "run_cases [] h path full_path = Inr None"
| "run_cases (c # cs) h path full_path =
     (if test c h full_path
      then (case act c h path full_path of Inl e \<Rightarrow> Inl e | Inr r \<Rightarrow> Inr (Some r))
      else run_cases cs h path full_path)"

section \<open>The request handler\<close>

text \<open>
  The first lines of \<open>do_GET\<close>: decode, strip, join, check the prefix. The result is
  the pair of \<open>self.path\<close> and \<open>self.full_path\<close>.
\<close>

definition resolve :: "string \<Rightarrow> string \<Rightarrow> exn + (string \<times> string)" where
  "resolve rootdir raw =
     (let path = unquote raw;
          full_path = os_path_join rootdir (lstrip path ''/'') in
      if \<not> startswith full_path rootdir then Inl (ServerException ''Access denied'')
      else Inr (path, full_path))"

text \<open>
  \<open>do_GET\<close>: \<open>None\<close> when the handler returns having sent nothing. An exception
  is caught by \<open>except Exception as msg: self.handle_error(str(msg))\<close>.
\<close>

definition do_GET :: "host \<Rightarrow> string \<Rightarrow> response option" where
  "do_GET h raw =
     (case resolve (cwd h) raw of
        Inl (ServerException msg) \<Rightarrow> Some (handle_error (unquote raw) msg)
      | Inr (path, full_path) \<Rightarrow>
          (case run_cases cases h path full_path of
             Inl (ServerException msg) \<Rightarrow> Some (handle_error path msg)
           | Inr r \<Rightarrow> r))"

section \<open>Matching cases\<close>

text \<open>
  The cases whose \<open>test\<close> holds for a request, in the order of the chain. The
  handler only ever asks for the first of them.
\<close>

definition matching :: "host \<Rightarrow> string \<Rightarrow> handler_case list" where
  "matching h full_path = filter (\<lambda>c. test c h full_path) cases"

section \<open>Canonical paths\<close>

text \<open>
  The handler never computes a canonical path. The statements about paths that leave the
  document root need one: \<open>canonical\<close> is \<open>posixpath.normpath\<close>, the path the
  operating system reaches when no component is a symbolic link, and
  \<open>inside_root\<close> is "equal to the root or strictly beneath it".
\<close>

fun split_slash :: "string \<Rightarrow> string list" where
  "split_slash [] = [[]]"
| "split_slash (c # cs) =
     (if c = CHR ''/'' then [] # split_slash cs
      else (case split_slash cs of [] \<Rightarrow> [[c]] | w # ws \<Rightarrow> (c # w) # ws))"

fun norm_comps :: "bool \<Rightarrow> string list \<Rightarrow> string list \<Rightarrow> string list" where
  "norm_comps initial_slashes [] new_comps = new_comps"
| "norm_comps initial_slashes (component # comps) new_comps =
     (if component = [] \<or> component = ''.'' then norm_comps initial_slashes comps new_comps
      else if component \<noteq> ''..'' \<or> (\<not> initial_slashes \<and> new_comps = [])
              \<or> (new_comps \<noteq> [] \<and> last new_comps = ''..'')
      then norm_comps initial_slashes comps (new_comps @ [component])
      else if new_comps \<noteq> [] then norm_comps initial_slashes comps (butlast new_comps)
      else norm_comps initial_slashes comps new_comps)"

definition canonical :: "string \<Rightarrow> string" where
  "canonical path =
     (if path = [] then ''.''
      else
        (let initial_slashes =
               (if \<not> startswith path ''/'' then 0
                else if startswith path ''//'' \<and> \<not> startswith path ''///'' then 2
                else (1::nat));
             new_comps = norm_comps (initial_slashes \<noteq> 0) (split_slash path) [];
             p = replicate initial_slashes (CHR ''/'') @ join ''/'' new_comps in
         if p = [] then ''.'' else p))"

definition inside_root :: "string \<Rightarrow> string \<Rightarrow> bool" where
  "inside_root rootdir p = (p = rootdir \<or> startswith p (rootdir @ ''/''))"

section \<open>Example hosts\<close>

text \<open>
  Hosts for the concrete evaluations below: a filesystem given by three tables (a path
  absent from a table fails with \<open>ENOENT\<close>), the working directory \<open>/srv/www\<close>,
  and one behaviour for every child process.
\<close>

definition enoent :: "string \<Rightarrow> string" where
  "enoent p = ''[Errno 2] No such file or directory: '' @ sq @ p @ sq"

definition table :: "(string \<times> (string + 'a)) list \<Rightarrow> string \<Rightarrow> string + 'a" where
  "table tbl p = (case map_of tbl p of None \<Rightarrow> Inl (enoent p) | Some r \<Rightarrow> r)"

definition example_host ::
  "(string \<times> (string + (kind \<times> int))) list \<Rightarrow> (string \<times> (string + string)) list \<Rightarrow>
   (string \<times> (string + string list)) list \<Rightarrow> child \<Rightarrow> host" where
  "example_host stats contents listings c =
     \<lparr>cwd = ''/srv/www'', os_stat = table stats, os_read = table contents,
      os_listdir = table listings, environ = Map.empty, executable = ''/usr/bin/python3'',
      server_name = ''localhost'', server_port = 8080, spawn = (\<lambda>argv env. c)\<rparr>"

definition no_child :: child where
  "no_child = CannotRun ''[Errno 2] No such file or directory''"

definition escape_host :: host where
  "escape_host =
     example_host [(''/srv/www/../../etc/passwd'', Inr (Regular, 6))]
       [(''/srv/www/../../etc/passwd'', Inr ''secret'')] [] no_child"

definition script_host :: "child \<Rightarrow> host" where
  "script_host c = example_host [(''/srv/www/time.py'', Inr (Regular, 120))] [] [] c"

definition static_host :: host where
  "static_host =
     example_host [(''/srv/www/notes.txt'', Inr (Regular, 5))]
       [(''/srv/www/notes.txt'', Inr ''hello'')] [] no_child"

definition unreadable_host :: host where
  "unreadable_host =
     example_host [(''/srv/www/notes.txt'', Inr (Regular, 5))]
       [(''/srv/www/notes.txt'', Inl ''[Errno 13] Permission denied'')] [] no_child"



section \<open>Evaluating decimal numerals\<close>

lemma str_digits_code [code]: "str_digits n = str_digits_at (n < 10) n"
  by (subst str_digits.simps) (simp add: str_digits_at_def)

lemma str_digits_at_code [code]:
  "str_digits_at True n = [digit n]"
  "str_digits_at False n = str_digits (n div 10) @ [digit (n mod 10)]"
  by (simp_all add: str_digits_at_def)

section \<open>Path resolution and the sandbox check\<close>

lemma startswith_append: "startswith (r @ s) r"
  by (simp add: startswith_def)

lemma lstrip_not_slash: "\<not> startswith (lstrip p ''/'') ''/''"
proof (cases "lstrip p ''/''")
  case Nil
  then show ?thesis by (simp add: startswith_def)
next
  case (Cons c cs)
  then have "c \<noteq> CHR ''/''"
    unfolding lstrip_def by (simp add: dropWhile_eq_Cons_conv)
  with Cons show ?thesis by (simp add: startswith_def)
qed

lemma join_startswith: "startswith (os_path_join r (lstrip p ''/'')) r"
  using lstrip_not_slash [of p]
  by (simp add: os_path_join_def startswith_append)

lemma resolve_eq:
  "resolve r raw = Inr (unquote raw, os_path_join r (lstrip (unquote raw) ''/''))"
  by (simp add: resolve_def Let_def join_startswith)

text \<open>
  C2. The sandbox-violation branch of \<open>do_GET\<close> is unreachable: for every working
  directory and every request path, \<open>os.path.join(os.getcwd(), path.lstrip('/'))\<close>
  starts with \<open>os.getcwd()\<close>, so path resolution never raises "Access denied" and
  always hands the joined path on to the case chain.
\<close>

theorem sandbox_check_rejects_nothing:
  "startswith (os_path_join rootdir (lstrip path ''/'')) rootdir
   \<and> resolve rootdir raw \<noteq> Inl (ServerException ''Access denied'')
   \<and> resolve rootdir raw
       = Inr (unquote raw, os_path_join rootdir (lstrip (unquote raw) ''/''))"
  by (simp add: resolve_eq join_startswith)

text \<open>
  C1 says that path resolution either yields a path inside the working directory or
  fails with "Access denied". At the request \<open>/../../etc/passwd\<close>, and at its
  percent-encoded form, with the working directory \<open>/srv/www\<close> the code does
  neither: resolution succeeds with \<open>/srv/www/../../etc/passwd\<close>, whose canonical
  form \<open>/etc/passwd\<close> is outside the root, and the handler serves the file found
  there with status 200.
\<close>

theorem traversal_leaves_root:
  "resolve ''/srv/www'' ''/../../etc/passwd''
     = Inr (''/../../etc/passwd'', ''/srv/www/../../etc/passwd'')
   \<and> resolve ''/srv/www'' ''/%2e%2e/%2E%2E/etc/passwd''
     = Inr (''/../../etc/passwd'', ''/srv/www/../../etc/passwd'')
   \<and> canonical ''/srv/www/../../etc/passwd'' = ''/etc/passwd''
   \<and> \<not> inside_root ''/srv/www'' (canonical ''/srv/www/../../etc/passwd'')
   \<and> map_option status (do_GET escape_host ''/../../etc/passwd'') = Some 200
   \<and> map_option body (do_GET escape_host ''/../../etc/passwd'') = Some ''secret''"
  by code_simp

section \<open>The size formatter\<close>

lemma round_half_even_near: "\<bar>of_int (round_half_even y) - y\<bar> \<le> 1 / 2"
proof -
  define f where "f = \<lfloor>y\<rfloor>"
  have lo: "of_int f \<le> y" and hi: "y < of_int f + 1"
    by (simp_all add: f_def) linarith
  show ?thesis
    using lo hi
    by (auto simp add: round_half_even_def Let_def f_def [symmetric] abs_if)
qed

lemma str_digits_digit: "d < 10 \<Longrightarrow> str_digits d = [digit d]"
  by (simp add: str_digits.simps)

lemma fmt_1f_shape:
  assumes "0 \<le> x"
  shows "\<exists>t. fmt_1f x = str_digits (t div 10) @ ''.'' @ [digit (t mod 10)]
           \<and> \<bar>of_int t - 10 * x\<bar> \<le> 1 / 2"
proof -
  have "\<bar>of_int (round_half_even (x * 10)) - 10 * x\<bar> \<le> 1 / 2"
    using round_half_even_near [of "x * 10"] by (simp add: mult.commute)
  with assms show ?thesis
    by (intro exI [of _ "round_half_even (x * 10)"])
       (simp add: fmt_1f_def Let_def str_digits_digit)
qed

lemma format_size_cases:
  "format_size n =
     (if n < 1024 then fmt_1f (of_int n) @ '' B''
      else if n < 1024 ^ 2 then fmt_1f (of_int n / 1024) @ '' KB''
      else if n < 1024 ^ 3 then fmt_1f (of_int n / 1024 ^ 2) @ '' MB''
      else if n < 1024 ^ 4 then fmt_1f (of_int n / 1024 ^ 3) @ '' GB''
      else fmt_1f (of_int n / 1024 ^ 4) @ '' TB'')"
proof -
  have a: "(of_int n :: rat) < 1024 \<longleftrightarrow> n < 1024"
    by simp
  have b: "(of_int n :: rat) / 1024 < 1024 \<longleftrightarrow> n < 1024 ^ 2"
    using of_int_less_iff [of n "1024 ^ 2", where 'a = rat] by (simp add: divide_less_eq)
  have c: "(of_int n :: rat) / 1024 / 1024 < 1024 \<longleftrightarrow> n < 1024 ^ 3"
    using of_int_less_iff [of n "1024 ^ 3", where 'a = rat] by (simp add: divide_less_eq)
  have d: "(of_int n :: rat) / 1024 / 1024 / 1024 < 1024 \<longleftrightarrow> n < 1024 ^ 4"
    using of_int_less_iff [of n "1024 ^ 4", where 'a = rat] by (simp add: divide_less_eq)
  show ?thesis
    unfolding format_size_def
    by (simp only: format_size_loop.simps a b c d) simp
qed

lemma format_size_500: "format_size 500 = ''500.0 B''"
  by code_simp

lemma format_size_2048: "format_size 2048 = ''2.0 KB''"
  by code_simp

lemma format_size_1572864: "format_size 1572864 = ''1.5 MB''"
  by code_simp

text \<open>
  C9. \<open>format_size\<close> renders a byte count in the base-1024 units B, KB, MB, GB, TB:
  the unit is the first one at which the running value \<open>size / 1024 ^ k\<close> is below
  1024 (TB when none is), and the value is written with one decimal digit, the nearest
  tenth. In particular 500 gives "500.0 B", 2048 gives "2.0 KB" and 1572864 gives
  "1.5 MB". Sizes are taken below \<open>2 ^ 53\<close>, where the float arithmetic of the
  source is exact.
\<close>

theorem format_size_units:
  assumes "0 \<le> n" and "n < 2 ^ 53" and "0 \<le> x"
  shows "format_size 500 = ''500.0 B''
    \<and> format_size 2048 = ''2.0 KB''
    \<and> format_size 1572864 = ''1.5 MB''
    \<and> format_size n =
         (if n < 1024 then fmt_1f (of_int n) @ '' B''
          else if n < 1024 ^ 2 then fmt_1f (of_int n / 1024) @ '' KB''
          else if n < 1024 ^ 3 then fmt_1f (of_int n / 1024 ^ 2) @ '' MB''
          else if n < 1024 ^ 4 then fmt_1f (of_int n / 1024 ^ 3) @ '' GB''
          else fmt_1f (of_int n / 1024 ^ 4) @ '' TB'')
    \<and> (\<exists>t. fmt_1f x = str_digits (t div 10) @ ''.'' @ [digit (t mod 10)]
           \<and> \<bar>of_int t - 10 * x\<bar> \<le> 1 / 2)"
  by (intro conjI format_size_500 format_size_2048 format_size_1572864
        format_size_cases fmt_1f_shape [OF assms(3)])

theorem format_size_units_witness:
  "format_size 1048575 = fmt_1f (1048575 / 1024) @ '' KB''
   \<and> format_size 1048575 = ''1024.0 KB''
   \<and> fmt_1f (5 / 4) = ''1.2''"
proof -
  have h: "(0::int) \<le> 1048575" "(1048575::int) < 2 ^ 53" "(0::rat) \<le> 5 / 4"
    by simp_all
  have a: "format_size 1048575 = fmt_1f (1048575 / 1024) @ '' KB''"
    using format_size_units [OF h, THEN conjunct2, THEN conjunct2, THEN conjunct2, THEN conjunct1]
    by simp
  have b: "fmt_1f (1048575 / 1024) = ''1024.0''" by code_simp
  have c: "fmt_1f (5 / 4) = ''1.2''" by code_simp
  show ?thesis
    by (intro conjI a c) (simp only: a b append.simps)
qed

section \<open>The case chain and its order\<close>

lemma run_cases_find:
  "run_cases cs h path fp =
     (case List.find (\<lambda>c. test c h fp) cs of
        None \<Rightarrow> Inr None
      | Some c \<Rightarrow> (case act c h path fp of Inl e \<Rightarrow> Inl e | Inr r \<Rightarrow> Inr (Some r)))"
  by (induction cs) simp_all

lemma isfile_exists: "os_path_isfile h p \<Longrightarrow> os_path_exists h p"
  by (auto simp add: os_path_isfile_def os_path_exists_def split: sum.splits)

lemma isdir_exists: "os_path_isdir h p \<Longrightarrow> os_path_exists h p"
  by (auto simp add: os_path_isdir_def os_path_exists_def split: sum.splits)

lemma isdir_not_isfile: "os_path_isdir h p \<Longrightarrow> \<not> os_path_isfile h p"
  by (auto simp add: os_path_isfile_def os_path_isdir_def split: sum.splits)

lemma matching_shape:
  "matching h fp \<in>
     {[CaseNoFile, CaseAlwaysFail],
      [CaseCgiFile, CaseExistingFile, CaseAlwaysFail],
      [CaseExistingFile, CaseAlwaysFail],
      [CaseDirectoryIndexFile, CaseAlwaysFail],
      [CaseDirectoryNoIndex, CaseAlwaysFail],
      [CaseAlwaysFail]}"
  using isfile_exists [of h fp] isdir_exists [of h fp] isdir_not_isfile [of h fp]
  by (auto simp add: matching_def cases_def)

lemma run_cases_hd:
  "run_cases cases h path fp =
     (case act (hd (matching h fp)) h path fp of Inl e \<Rightarrow> Inl e | Inr r \<Rightarrow> Inr (Some r))"
  by (simp add: matching_def cases_def)

lemma do_GET_eq:
  "do_GET h raw =
     (let path = unquote raw; fp = os_path_join (cwd h) (lstrip path ''/'') in
      Some
       (if \<not> os_path_exists h fp then handle_error path (sq @ path @ sq @ '' not found'')
        else if os_path_isfile h fp \<and> endswith fp ''.py'' then run_cgi h path fp
        else if os_path_isfile h fp then handle_file h path fp
        else if os_path_isdir h fp \<and> os_path_isfile h (index_path fp)
          then handle_file h path (index_path fp)
        else if os_path_isdir h fp then list_dir h path fp
        else handle_error path (''Unknown object '' @ sq @ path @ sq)))"
  by (simp add: do_GET_def resolve_eq cases_def Let_def)

text \<open>
  C3, as the code has it. The tests are not exclusive: \<open>CaseAlwaysFail\<close> holds
  for every request, and \<open>CaseExistingFile\<close> holds whenever \<open>CaseCgiFile\<close> does. For
  every request the cases whose test holds are one of six lists, each ending in
  \<open>CaseAlwaysFail\<close>, so at least one case matches; the chain acts on exactly one case,
  the first of that list, and \<open>do_GET\<close> always answers.
\<close>

theorem first_match_is_taken:
  "matching h full_path \<in>
     {[CaseNoFile, CaseAlwaysFail],
      [CaseCgiFile, CaseExistingFile, CaseAlwaysFail],
      [CaseExistingFile, CaseAlwaysFail],
      [CaseDirectoryIndexFile, CaseAlwaysFail],
      [CaseDirectoryNoIndex, CaseAlwaysFail],
      [CaseAlwaysFail]}
   \<and> test CaseAlwaysFail h full_path
   \<and> matching h full_path \<noteq> []
   \<and> run_cases cases h path full_path =
        (case act (hd (matching h full_path)) h path full_path of
           Inl e \<Rightarrow> Inl e | Inr r \<Rightarrow> Inr (Some r))
   \<and> (\<exists>r. do_GET h raw = Some r)"
  using matching_shape [of h full_path]
  by (intro conjI matching_shape run_cases_hd) (auto simp add: do_GET_eq Let_def)

text \<open>
  C3 as stated (precisely one of the six tests holds) fails: for an existing script
  three tests hold, for a missing path two.
\<close>

theorem several_cases_match:
  "matching (script_host no_child) ''/srv/www/time.py''
     = [CaseCgiFile, CaseExistingFile, CaseAlwaysFail]
   \<and> matching (script_host no_child) ''/srv/www/missing.txt'' = [CaseNoFile, CaseAlwaysFail]"
  by code_simp

text \<open>
  C4. The chain tries the cases in the order \<open>CaseNoFile\<close>, \<open>CaseCgiFile\<close>,
  \<open>CaseExistingFile\<close>, \<open>CaseDirectoryIndexFile\<close>, \<open>CaseDirectoryNoIndex\<close>,
  \<open>CaseAlwaysFail\<close> and runs the action of the first case whose test holds. For an
  existing regular file whose path ends in \<open>.py\<close> that case is \<open>CaseCgiFile\<close>: the
  response is the one of \<open>run_cgi\<close>, the file is executed and not served as it is.
\<close>

theorem script_case_before_file_case:
  assumes "resolve (cwd h) raw = Inr (path, full_path)"
    and "os_path_isfile h full_path" and "endswith full_path ''.py''"
  shows "cases = [CaseNoFile, CaseCgiFile, CaseExistingFile, CaseDirectoryIndexFile,
                  CaseDirectoryNoIndex, CaseAlwaysFail]
    \<and> run_cases cs h path full_path =
        (case List.find (\<lambda>c. test c h full_path) cs of
           None \<Rightarrow> Inr None
         | Some c \<Rightarrow>
             (case act c h path full_path of Inl e \<Rightarrow> Inl e | Inr r \<Rightarrow> Inr (Some r)))
    \<and> List.find (\<lambda>c. test c h full_path) cases = Some CaseCgiFile
    \<and> run_cases cases h path full_path = Inr (Some (run_cgi h path full_path))
    \<and> do_GET h raw = Some (run_cgi h path full_path)"
proof -
  have ex: "os_path_exists h full_path"
    using assms(2) by (rule isfile_exists)
  have f: "List.find (\<lambda>c. test c h full_path) cases = Some CaseCgiFile"
    using ex assms(2,3) by (simp add: cases_def)
  have r: "run_cases cases h path full_path = Inr (Some (run_cgi h path full_path))"
    by (simp add: run_cases_find f)
  have d: "do_GET h raw = Some (run_cgi h path full_path)"
    using assms(1) r by (simp add: do_GET_def)
  show ?thesis
    by (intro conjI cases_def run_cases_find f r d)
qed

theorem script_case_before_file_case_witness:
  "os_path_isfile (script_host (Runs 1 0 ''<p>now</p>'' [])) ''/srv/www/time.py''
   \<and> do_GET (script_host (Runs 1 0 ''<p>now</p>'' [])) ''/time.py''
        = Some (run_cgi (script_host (Runs 1 0 ''<p>now</p>'' [])) ''/time.py'' ''/srv/www/time.py'')
   \<and> map_option body (do_GET (script_host (Runs 1 0 ''<p>now</p>'' [])) ''/time.py'')
        = Some ''<p>now</p>''"
proof -
  let ?h = "script_host (Runs 1 0 ''<p>now</p>'' [])"
  have a: "resolve (cwd ?h) ''/time.py'' = Inr (''/time.py'', ''/srv/www/time.py'')"
    by code_simp
  have b: "os_path_isfile ?h ''/srv/www/time.py''" by code_simp
  have c: "endswith ''/srv/www/time.py'' ''.py''" by code_simp
  have d: "do_GET ?h ''/time.py'' = Some (run_cgi ?h ''/time.py'' ''/srv/www/time.py'')"
    using script_case_before_file_case [OF a b c] by simp
  have e: "body (run_cgi ?h ''/time.py'' ''/srv/www/time.py'') = ''<p>now</p>''"
    by code_simp
  show ?thesis
    by (intro conjI b d) (simp add: d e)
qed

section \<open>Script execution\<close>


lemma subprocess_run_late:
  "timeout < t \<Longrightarrow> subprocess_run (Runs t rc out err) timeout = TimeoutExpired out err"
  by (simp add: subprocess_run_def)

lemma cgi_env_spawn [simp]: "cgi_env (h\<lparr>spawn := f\<rparr>) path = cgi_env h path"
  by (simp add: cgi_env_def)

lemma status_handle_error: "status (handle_error path msg) = 404"
  by (simp add: handle_error_def send_content_def)

lemma body_handle_error: "body (handle_error path msg) = error_page path msg"
  by (simp add: handle_error_def send_content_def)



text \<open>
  C6. The deadline passed to \<open>subprocess.run\<close> is 30 seconds. When the child runs
  longer, the response is the error page, status 404, with the message
  \<open>CGI script timed out\<close>; the output captured before the kill plays no part in it.
\<close>

theorem timeout_hides_output:
  assumes "spawn h [executable h, full_path] (cgi_env h path) = Runs t returncode out err"
    and "cgi_timeout < t"
  shows "cgi_timeout = 30
       \<and> run_cgi h path full_path = handle_error path ''CGI script timed out''
       \<and> status (run_cgi h path full_path) = 404
       \<and> body (run_cgi h path full_path) = error_page path ''CGI script timed out''
       \<and> run_cgi (h\<lparr>spawn := \<lambda>argv env. Runs t returncode out' err'\<rparr>) path full_path
           = run_cgi h path full_path"
  using assms
  by (simp add: run_cgi_def subprocess_run_late status_handle_error body_handle_error)
     (simp add: cgi_timeout_def)

theorem timeout_hides_output_witness:
  "run_cgi (script_host (Runs (61 / 2) 0 ''<p>half a page'' [])) ''/time.py''
       ''/srv/www/time.py''
     = handle_error ''/time.py'' ''CGI script timed out''
   \<and> do_GET (script_host (Runs (61 / 2) 0 ''<p>half a page'' [])) ''/time.py''
     = Some (handle_error ''/time.py'' ''CGI script timed out'')"
proof -
  let ?h = "script_host (Runs (61 / 2) 0 ''<p>half a page'' [])"
  have t: "cgi_timeout < 61 / 2" by (simp add: cgi_timeout_def)
  have a: "spawn ?h [executable ?h, ''/srv/www/time.py''] (cgi_env ?h ''/time.py'')
             = Runs (61 / 2) 0 ''<p>half a page'' []"
    by (simp add: script_host_def example_host_def)
  have c: "do_GET ?h ''/time.py'' = Some (run_cgi ?h ''/time.py'' ''/srv/www/time.py'')"
    by code_simp
  show ?thesis
    using timeout_hides_output [OF a t] c by simp
qed

section \<open>Static files\<close>

text \<open>
  C7, as the code has it. For an existing regular file whose path does not end in
  \<open>.py\<close> and whose contents can be read, \<open>do_GET\<close> answers with status 200 and
  the bytes read from the file as the body.
\<close>

theorem readable_file_is_served:
  assumes "resolve (cwd h) raw = Inr (path, full_path)"
    and "os_path_isfile h full_path" and "\<not> endswith full_path ''.py''"
    and "os_read h full_path = Inr content"
  shows "do_GET h raw = Some (send_content path content 200)
       \<and> map_option status (do_GET h raw) = Some 200
       \<and> map_option body (do_GET h raw) = Some content"
proof -
  have ex: "os_path_exists h full_path"
    using assms(2) by (rule isfile_exists)
  have "run_cases cases h path full_path = Inr (Some (handle_file h path full_path))"
    using ex assms(2,3) by (simp add: cases_def)
  then have "do_GET h raw = Some (send_content path content 200)"
    using assms(1,4) by (simp add: do_GET_def handle_file_def)
  then show ?thesis
    by (simp add: send_content_def)
qed

theorem readable_file_is_served_witness:
  "do_GET static_host ''/notes.txt'' = Some (send_content ''/notes.txt'' ''hello'' 200)
   \<and> map_option body (do_GET static_host ''/notes.txt'') = Some ''hello''"
proof -
  have a: "resolve (cwd static_host) ''/notes.txt'' = Inr (''/notes.txt'', ''/srv/www/notes.txt'')"
    by code_simp
  have b: "os_path_isfile static_host ''/srv/www/notes.txt''" by code_simp
  have c: "\<not> endswith ''/srv/www/notes.txt'' ''.py''" by code_simp
  have d: "os_read static_host ''/srv/www/notes.txt'' = Inr ''hello''" by code_simp
  note r = readable_file_is_served [OF a b c d]
  show ?thesis
    by (intro conjI r [THEN conjunct1] r [THEN conjunct2, THEN conjunct2])
qed

text \<open>
  C7 as stated (every existing regular file) fails: when \<open>open\<close> or \<open>read\<close>
  raises \<open>IOError\<close>, \<open>handle_file\<close> sends the error page with status 404.
\<close>

theorem unreadable_file_gets_404:
  "resolve (cwd unreadable_host) ''/notes.txt'' = Inr (''/notes.txt'', ''/srv/www/notes.txt'')
   \<and> os_path_isfile unreadable_host ''/srv/www/notes.txt''
   \<and> \<not> endswith ''/srv/www/notes.txt'' ''.py''
   \<and> map_option status (do_GET unreadable_host ''/notes.txt'') = Some 404"
  by code_simp

section \<open>Directory listings\<close>






section \<open>The error page\<close>










end
